theory Spec2Isabelle
  imports Main
begin

section \<open>Strings as the scraper uses them\<close>

text \<open>
  Python strings are modelled as \<^typ>\<open>string\<close>, a character standing for the code point
  of its number. The model is exact for text of code points below 256: the whitespace set
  below is what \<^verbatim>\<open>str.isspace()\<close> accepts there, and so what \<^verbatim>\<open>str.strip()\<close> removes: the
  code points 9 to 13, 28 to 32, 133 (NEL) and 160 (the no-break space).
\<close>

definition NA :: string where
  "NA = ''N/A''"

definition BASE_URL :: string where
  "BASE_URL = ''https://ssr1.scrape.center''"

definition LF :: char where
  "LF = char_of (10::nat)"

definition CR :: char where
  "CR = char_of (13::nat)"

definition TAB :: char where
  "TAB = char_of (9::nat)"

definition isspace :: "char \<Rightarrow> bool" where
  "isspace c = (let n = (of_char c :: nat)
                in (9 \<le> n \<and> n \<le> 13) \<or> (28 \<le> n \<and> n \<le> 32) \<or> n = 133 \<or> n = 160)"

definition lstrip_by :: "(char \<Rightarrow> bool) \<Rightarrow> string \<Rightarrow> string" where
  "lstrip_by P s = dropWhile P s"

definition rstrip_by :: "(char \<Rightarrow> bool) \<Rightarrow> string \<Rightarrow> string" where
  "rstrip_by P s = rev (dropWhile P (rev s))"

definition strip_by :: "(char \<Rightarrow> bool) \<Rightarrow> string \<Rightarrow> string" where
  "strip_by P s = rstrip_by P (lstrip_by P s)"

definition strip :: "string \<Rightarrow> string" where
  "strip s = strip_by isspace s"

definition startswith :: "string \<Rightarrow> string \<Rightarrow> bool" where
  "startswith s p = (take (length p) s = p)"

fun split_on :: "char \<Rightarrow> string \<Rightarrow> string list" where
  "split_on d [] = [[]]"
| "split_on d (c # cs) =
     (if c = d then [] # split_on d cs
      else (case split_on d cs of
              [] \<Rightarrow> [[c]]
            | w # ws \<Rightarrow> (c # w) # ws))"

fun join :: "string \<Rightarrow> string list \<Rightarrow> string" where
  "join sep [] = []"
| "join sep [x] = x"
| "join sep (x # y # ys) = x @ sep @ join sep (y # ys)"

text \<open>\<^verbatim>\<open>s.find(c)\<close> for a single character: the first index, or nothing.\<close>

fun find_char :: "char \<Rightarrow> string \<Rightarrow> nat option" where
  "find_char d [] = None"
| "find_char d (c # cs) =
     (if c = d then Some 0 else map_option Suc (find_char d cs))"

text \<open>\<^verbatim>\<open>s.split(c, 1)\<close> where \<^verbatim>\<open>c in s\<close> has been checked: the parts around the first \<open>c\<close>.\<close>

definition split_first :: "char \<Rightarrow> string \<Rightarrow> string \<times> string" where
  "split_first d s = (takeWhile (\<lambda>c. c \<noteq> d) s, drop 1 (dropWhile (\<lambda>c. c \<noteq> d) s))"

definition ascii_lowercase :: string where
  "ascii_lowercase = ''abcdefghijklmnopqrstuvwxyz''"

definition ascii_uppercase :: string where
  "ascii_uppercase = ''ABCDEFGHIJKLMNOPQRSTUVWXYZ''"

definition isascii_alpha :: "char \<Rightarrow> bool" where
  "isascii_alpha c = (c \<in> set (ascii_lowercase @ ascii_uppercase))"

definition lower_char :: "char \<Rightarrow> char" where
  "lower_char c = (case map_of (zip ascii_uppercase ascii_lowercase) c of
                     None \<Rightarrow> c | Some l \<Rightarrow> l)"

definition lower :: "string \<Rightarrow> string" where
  "lower s = map lower_char s"

section \<open>The library's URL resolution (\<^verbatim>\<open>urllib.parse.urljoin\<close>)\<close>

text \<open>
  The scraper resolves image sources with the standard library's \<^verbatim>\<open>urljoin\<close>. It is
  modelled step by step after CPython 3.11's \<^verbatim>\<open>urllib/parse.py\<close>, including the
  \<^verbatim>\<open>ValueError\<close> it raises on a malformed bracketed host. Two parts of the library stay
  outside the model: the validation of the contents of a well-bracketed host
  (\<^verbatim>\<open>_check_bracketed_host\<close>, which calls the \<^verbatim>\<open>ipaddress\<close> and \<^verbatim>\<open>re\<close> modules) is the
  parameter \<open>host_ok\<close>, and \<^verbatim>\<open>_checknetloc\<close>, which never raises on a host of code points
  below 256 (none of them normalises to one of the characters it looks for).
\<close>

datatype exn = ValueError | TimeoutException | WebDriverException | IOError

definition uses_relative :: "string list" where
  "uses_relative = ['''', ''ftp'', ''http'', ''gopher'', ''nntp'', ''imap'',
     ''wais'', ''file'', ''https'', ''shttp'', ''mms'',
     ''prospero'', ''rtsp'', ''rtsps'', ''rtspu'', ''sftp'',
     ''svn'', ''svn+ssh'', ''ws'', ''wss'']"

definition uses_netloc :: "string list" where
  "uses_netloc = ['''', ''ftp'', ''http'', ''gopher'', ''nntp'', ''telnet'',
     ''imap'', ''wais'', ''file'', ''mms'', ''https'', ''shttp'',
     ''snews'', ''prospero'', ''rtsp'', ''rtsps'', ''rtspu'', ''rsync'',
     ''svn'', ''svn+ssh'', ''sftp'', ''nfs'', ''git'', ''git+ssh'',
     ''ws'', ''wss'']"

definition uses_params :: "string list" where
  "uses_params = ['''', ''ftp'', ''hdl'', ''prospero'', ''http'', ''imap'',
     ''https'', ''shttp'', ''rtsp'', ''rtsps'', ''rtspu'', ''sip'',
     ''sips'', ''mms'', ''sftp'', ''tel'']"

definition scheme_chars :: string where
  "scheme_chars = ascii_lowercase @ ascii_uppercase @ ''0123456789'' @ ''+-.''"

definition is_c0_control_or_space :: "char \<Rightarrow> bool" where
  "is_c0_control_or_space c = ((of_char c :: nat) \<le> 32)"

definition remove_unsafe :: "string \<Rightarrow> string" where
  "remove_unsafe s = filter (\<lambda>c. c \<noteq> TAB \<and> c \<noteq> CR \<and> c \<noteq> LF) s"

definition splitnetloc :: "string \<Rightarrow> nat \<Rightarrow> string \<times> string" where
  "splitnetloc url start =
     (let rest = drop start url;
          dom = takeWhile (\<lambda>c. c \<notin> set ''/?#'') rest
      in (dom, drop (length dom) rest))"

text \<open>\<^verbatim>\<open>netloc.partition('[')[2].partition(']')[0]\<close>\<close>

definition bracketed_host :: "string \<Rightarrow> string" where
  "bracketed_host netloc =
     takeWhile (\<lambda>c. c \<noteq> CHR '']'') (drop 1 (dropWhile (\<lambda>c. c \<noteq> CHR ''['') netloc))"

record split_result =
  sr_scheme :: string
  sr_netloc :: string
  sr_path :: string
  sr_query :: string
  sr_fragment :: string

text \<open>
  \<^verbatim>\<open>urlsplit(url, scheme)\<close> with \<^verbatim>\<open>allow_fragments=True\<close>; \<open>Inl ValueError\<close> for the two
  places that raise.
\<close>

definition urlsplit :: "(string \<Rightarrow> bool) \<Rightarrow> string \<Rightarrow> string \<Rightarrow> exn + split_result" where
  "urlsplit host_ok url0 scheme0 =
     (let url1 = remove_unsafe (lstrip_by is_c0_control_or_space url0);
          scheme1 = remove_unsafe (strip_by is_c0_control_or_space scheme0);
          (scheme, url) =
            (case find_char CHR '':'' url1 of
               None \<Rightarrow> (scheme1, url1)
             | Some i \<Rightarrow>
                 if 0 < i \<and> isascii_alpha (hd url1)
                    \<and> (\<forall>c \<in> set (take i url1). c \<in> set scheme_chars)
                 then (lower (take i url1), drop (Suc i) url1)
                 else (scheme1, url1));
          (netloc, url2) =
            (if take 2 url = ''//'' then splitnetloc url 2 else ([], url));
          (url3, fragment) =
            (if CHR ''#'' \<in> set url2 then split_first CHR ''#'' url2 else (url2, []));
          (url4, query) =
            (if CHR ''?'' \<in> set url3 then split_first CHR ''?'' url3 else (url3, []))
      in if take 2 url = ''//''
            \<and> ((CHR ''['' \<in> set netloc \<and> CHR '']'' \<notin> set netloc)
                \<or> (CHR '']'' \<in> set netloc \<and> CHR ''['' \<notin> set netloc))
         then Inl ValueError
         else if take 2 url = ''//'' \<and> CHR ''['' \<in> set netloc \<and> CHR '']'' \<in> set netloc
                 \<and> \<not> host_ok (bracketed_host netloc)
         then Inl ValueError
         else Inr \<lparr>sr_scheme = scheme, sr_netloc = netloc, sr_path = url4,
                    sr_query = query, sr_fragment = fragment\<rparr>)"

record parse_result =
  pr_scheme :: string
  pr_netloc :: string
  pr_path :: string
  pr_params :: string
  pr_query :: string
  pr_fragment :: string

text \<open>\<^verbatim>\<open>_splitparams\<close>: the parameters follow the first \<open>;\<close> of the last path segment.\<close>

definition splitparams :: "string \<Rightarrow> string \<times> string" where
  "splitparams url =
     (if CHR ''/'' \<in> set url then
        (let lastseg = rev (takeWhile (\<lambda>c. c \<noteq> CHR ''/'') (rev url));
             front = take (length url - length lastseg) url
         in if CHR '';'' \<in> set lastseg
            then (front @ fst (split_first CHR '';'' lastseg), snd (split_first CHR '';'' lastseg))
            else (url, []))
      else split_first CHR '';'' url)"

definition urlparse :: "(string \<Rightarrow> bool) \<Rightarrow> string \<Rightarrow> string \<Rightarrow> exn + parse_result" where
  "urlparse host_ok url scheme =
     (case urlsplit host_ok url scheme of
        Inl e \<Rightarrow> Inl e
      | Inr r \<Rightarrow>
          (let (path, params) =
                 (if sr_scheme r \<in> set uses_params \<and> CHR '';'' \<in> set (sr_path r)
                  then splitparams (sr_path r) else (sr_path r, []))
           in Inr \<lparr>pr_scheme = sr_scheme r, pr_netloc = sr_netloc r, pr_path = path,
                    pr_params = params, pr_query = sr_query r,
                    pr_fragment = sr_fragment r\<rparr>))"

definition urlunsplit :: "split_result \<Rightarrow> string" where
  "urlunsplit r =
     (let url0 = sr_path r;
          url1 = (if sr_netloc r \<noteq> [] \<or> (sr_scheme r \<noteq> [] \<and> sr_scheme r \<in> set uses_netloc)
                     \<or> take 2 url0 = ''//''
                  then ''//'' @ sr_netloc r
                       @ (if url0 \<noteq> [] \<and> take 1 url0 \<noteq> ''/'' then ''/'' @ url0 else url0)
                  else url0);
          url2 = (if sr_scheme r \<noteq> [] then sr_scheme r @ '':'' @ url1 else url1);
          url3 = (if sr_query r \<noteq> [] then url2 @ ''?'' @ sr_query r else url2)
      in if sr_fragment r \<noteq> [] then url3 @ ''#'' @ sr_fragment r else url3)"

definition urlunparse :: "parse_result \<Rightarrow> string" where
  "urlunparse p =
     urlunsplit \<lparr>sr_scheme = pr_scheme p, sr_netloc = pr_netloc p,
                 sr_path = (if pr_params p \<noteq> [] then pr_path p @ '';'' @ pr_params p
                            else pr_path p),
                 sr_query = pr_query p, sr_fragment = pr_fragment p\<rparr>"

text \<open>
  The segment loop of \<^verbatim>\<open>urljoin\<close>: \<open>..\<close> pops the last resolved segment (nothing happens
  on an empty stack), \<open>.\<close> is dropped, everything else is pushed.
\<close>

fun resolve_segments :: "string list \<Rightarrow> string list \<Rightarrow> string list" where
  "resolve_segments resolved [] = resolved"
| "resolve_segments resolved (seg # segs) =
     (if seg = ''..'' then resolve_segments (butlast resolved) segs
      else if seg = ''.'' then resolve_segments resolved segs
      else resolve_segments (resolved @ [seg]) segs)"

text \<open>\<^verbatim>\<open>segments[1:-1] = filter(None, segments[1:-1])\<close>\<close>

definition filter_inner :: "string list \<Rightarrow> string list" where
  "filter_inner segments =
     (case segments of
        [] \<Rightarrow> []
      | [x] \<Rightarrow> [x]
      | x # rest \<Rightarrow> x # filter (\<lambda>s. s \<noteq> []) (butlast rest) @ [last rest])"

definition urljoin :: "(string \<Rightarrow> bool) \<Rightarrow> string \<Rightarrow> string \<Rightarrow> exn + string" where
  "urljoin host_ok base url =
     (if base = [] then Inr url
      else if url = [] then Inr base
      else
        (case urlparse host_ok base [] of
           Inl e \<Rightarrow> Inl e
         | Inr b \<Rightarrow>
        (case urlparse host_ok url (pr_scheme b) of
           Inl e \<Rightarrow> Inl e
         | Inr u \<Rightarrow>
             if pr_scheme u \<noteq> pr_scheme b \<or> pr_scheme u \<notin> set uses_relative
             then Inr url
             else if pr_scheme u \<in> set uses_netloc \<and> pr_netloc u \<noteq> []
             then Inr (urlunparse u)
             else
               (let netloc = (if pr_scheme u \<in> set uses_netloc then pr_netloc b
                              else pr_netloc u)
                in if pr_path u = [] \<and> pr_params u = []
                   then Inr (urlunparse
                          (u\<lparr>pr_netloc := netloc, pr_path := pr_path b,
                             pr_params := pr_params b,
                             pr_query := (if pr_query u = [] then pr_query b
                                          else pr_query u)\<rparr>))
                   else
                     (let base_parts0 = split_on CHR ''/'' (pr_path b);
                          base_parts = (if last base_parts0 \<noteq> [] then butlast base_parts0
                                        else base_parts0);
                          segments =
                            (if take 1 (pr_path u) = ''/''
                             then split_on CHR ''/'' (pr_path u)
                             else filter_inner (base_parts @ split_on CHR ''/'' (pr_path u)));
                          resolved0 = resolve_segments [] segments;
                          resolved = (if last segments = ''.'' \<or> last segments = ''..''
                                      then resolved0 @ [[]] else resolved0);
                          joined = join ''/'' resolved
                      in Inr (urlunparse
                           (u\<lparr>pr_netloc := netloc,
                              pr_path := (if joined = [] then ''/'' else joined)\<rparr>)))))))"

section \<open>The parsed document (\<^verbatim>\<open>BeautifulSoup\<close>)\<close>

text \<open>
  The input of the extraction is the tree that \<^verbatim>\<open>BeautifulSoup(page_source, 'html.parser')\<close>
  builds: a tag has a name, the list of its classes (the parser splits the \<^verbatim>\<open>class\<close>
  attribute at whitespace), its other attributes (strings) and its contents; the text between
  tags is a \<^verbatim>\<open>NavigableString\<close>. Comments and the text inside \<^verbatim>\<open>script\<close> and \<^verbatim>\<open>style\<close>
  are never returned by \<^verbatim>\<open>get_text\<close> and are left out of the tree.
\<close>

datatype node =
    Tag string "string list" "(string \<times> string) list" "node list"
  | NavigableString string

text \<open>\<^verbatim>\<open>tag.descendants\<close>: every node below the tag, in document order.\<close>

fun descendants :: "node \<Rightarrow> node list" where
  "descendants (Tag nm cls attrs contents) = concat (map (\<lambda>k. k # descendants k) contents)"
| "descendants (NavigableString s) = []"

text \<open>
  What \<^verbatim>\<open>find_all(name, class_=c)\<close> tests on a node: a tag of that name which, when a
  class is asked for, has it among its classes (or as its whole class string).
\<close>

fun matches :: "string \<Rightarrow> string option \<Rightarrow> node \<Rightarrow> bool" where
  "matches name wanted (Tag nm cls attrs contents) =
     (nm = name \<and> (case wanted of
                      None \<Rightarrow> True
                    | Some c \<Rightarrow> c \<in> set cls \<or> join '' '' cls = c))"
| "matches name wanted (NavigableString s) = False"

definition find_all :: "string \<Rightarrow> string option \<Rightarrow> node \<Rightarrow> node list" where
  "find_all name wanted t = filter (matches name wanted) (descendants t)"

definition find_elem :: "string \<Rightarrow> string option \<Rightarrow> node \<Rightarrow> node option" where
  "find_elem name wanted t = (case find_all name wanted t of [] \<Rightarrow> None | r # _ \<Rightarrow> Some r)"

text \<open>\<^verbatim>\<open>tag.get(key)\<close>: the attribute, or \<^verbatim>\<open>None\<close>.\<close>

fun get :: "node \<Rightarrow> string \<Rightarrow> string option" where
  "get (Tag nm cls attrs contents) key = map_of attrs key"
| "get (NavigableString s) key = None"

fun string_of :: "node \<Rightarrow> string option" where
  "string_of (NavigableString s) = Some s"
| "string_of (Tag nm cls attrs contents) = None"

text \<open>\<^verbatim>\<open>tag.get_text()\<close>: the text of the tag, all the strings below it put together.\<close>

definition get_text :: "node \<Rightarrow> string" where
  "get_text t = concat (List.map_filter string_of (descendants t))"

text \<open>
  \<^verbatim>\<open>tag.get_text(strip=True)\<close>: every string below the tag is stripped, the empty ones are
  dropped, and the rest is concatenated with no separator.
\<close>

definition get_text_strip :: "node \<Rightarrow> string" where
  "get_text_strip t =
     concat (filter (\<lambda>s. s \<noteq> []) (map strip (List.map_filter string_of (descendants t))))"

section \<open>\<^verbatim>\<open>scrape_movies\<close>\<close>

record movie =
  name :: string
  image_url :: string
  rating :: string
  genre :: string

text \<open>What the program prints, one constructor for each \<^verbatim>\<open>print\<close>, and its pauses.\<close>

datatype event =
    ScrapingPage int
  | NoItemsFound int
  | Found string string
  | ItemError exn
  | Slept
  | PageError int exn
  | NoMoviesToSave
  | SavedMessage nat string
  | SaveError exn

record scraper_state =
  movies :: "movie list"
  printed :: "event list"

definition emit :: "event \<Rightarrow> scraper_state \<Rightarrow> scraper_state" where
  "emit ev st = st\<lparr>printed := printed st @ [ev]\<rparr>"

text \<open>Lines 80-85: the image URL. \<^verbatim>\<open>urljoin\<close> is the only call of the item that can raise.\<close>

definition extract_image_url :: "(string \<Rightarrow> bool) \<Rightarrow> node \<Rightarrow> exn + string" where
  "extract_image_url host_ok item =
     (case find_elem ''img'' None item of
        None \<Rightarrow> Inr NA
      | Some img_elem \<Rightarrow>
          (case get img_elem ''src'' of
             None \<Rightarrow> Inr NA
           | Some src \<Rightarrow>
               if src = [] then Inr NA
               else if src \<noteq> [] \<and> \<not> startswith src ''http''
               then urljoin host_ok BASE_URL src
               else Inr src))"

text \<open>Lines 88-97: the name.\<close>

definition name_elem :: "node \<Rightarrow> node option" where
  "name_elem item =
     (case find_elem ''a'' (Some ''name'') item of
        None \<Rightarrow> find_elem ''a'' None item
      | Some e \<Rightarrow> Some e)"

definition extract_name :: "node \<Rightarrow> string" where
  "extract_name item =
     (case name_elem item of
        None \<Rightarrow> NA
      | Some e \<Rightarrow>
          (case get e ''title'' of
             None \<Rightarrow> get_text_strip e
           | Some title \<Rightarrow> if title \<noteq> [] then strip title else get_text_strip e))"

text \<open>Lines 100-103: the rating.\<close>

definition extract_rating :: "node \<Rightarrow> string" where
  "extract_rating item =
     (case find_elem ''p'' (Some ''score'') item of
        None \<Rightarrow> NA
      | Some rating_elem \<Rightarrow> get_text_strip rating_elem)"

text \<open>Lines 106-110: the genre.\<close>

definition extract_genre :: "node \<Rightarrow> string" where
  "extract_genre item =
     (let categories = find_all ''button'' (Some ''category'') item
      in if categories \<noteq> [] then join '' '' (map get_text_strip categories) else NA)"

text \<open>
  Lines 78-121, the body of the item's \<^verbatim>\<open>try\<close>: \<open>Inl\<close> when it raises, otherwise the record
  to append, if any.
\<close>

definition parse_item :: "(string \<Rightarrow> bool) \<Rightarrow> node \<Rightarrow> exn + movie option" where
  "parse_item host_ok item =
     (case extract_image_url host_ok item of
        Inl e \<Rightarrow> Inl e
      | Inr url \<Rightarrow>
          (let movie_name = extract_name item;
               rating_text = extract_rating item;
               genre_text = extract_genre item
           in if url \<noteq> NA
              then Inr (Some \<lparr>name = movie_name, image_url = url,
                              rating = rating_text, genre = genre_text\<rparr>)
              else Inr None))"

text \<open>Lines 77-125: the loop over the items of a page, with the handler of each item.\<close>

fun process_items :: "(string \<Rightarrow> bool) \<Rightarrow> node list \<Rightarrow> scraper_state \<Rightarrow> scraper_state" where
  "process_items host_ok [] st = st"
| "process_items host_ok (item # items) st =
     process_items host_ok items
       (case parse_item host_ok item of
          Inl e \<Rightarrow> emit (ItemError e) st
        | Inr None \<Rightarrow> st
        | Inr (Some m) \<Rightarrow> emit (Found (name m) (rating m)) (st\<lparr>movies := movies st @ [m]\<rparr>))"

text \<open>
  Lines 58-140, one iteration of the page loop. \<open>browser page_num\<close> is the outcome of lines
  61-69 for that page: the parsed document, or the exception raised by the driver, the wait
  or the parser.
\<close>

definition scrape_page ::
  "(string \<Rightarrow> bool) \<Rightarrow> (int \<Rightarrow> exn + node) \<Rightarrow> int \<Rightarrow> int \<Rightarrow> scraper_state \<Rightarrow> scraper_state" where
  "scrape_page host_ok browser num_pages page_num st =
     (case browser page_num of
        Inl e \<Rightarrow> emit (PageError page_num e) (emit (ScrapingPage page_num) st)
      | Inr soup \<Rightarrow>
          (let st0 = emit (ScrapingPage page_num) st;
               movie_items = find_all ''div'' (Some ''item'') soup;
               st1 = (if movie_items = [] then emit (NoItemsFound page_num) st0 else st0);
               st2 = process_items host_ok movie_items st1
           in if page_num < num_pages then emit Slept st2 else st2))"

text \<open>\<^verbatim>\<open>range(start, stop)\<close>\<close>

definition py_range :: "int \<Rightarrow> int \<Rightarrow> int list" where
  "py_range start stop = [start..stop - 1]"

definition initial_state :: scraper_state where
  "initial_state = \<lparr>movies = [], printed = []\<rparr>"

definition scrape_movies ::
  "(string \<Rightarrow> bool) \<Rightarrow> (int \<Rightarrow> exn + node) \<Rightarrow> int \<Rightarrow> scraper_state" where
  "scrape_movies host_ok browser num_pages =
     foldl (\<lambda>st page_num. scrape_page host_ok browser num_pages page_num st)
       initial_state (py_range 1 (num_pages + 1))"

text \<open>The page numbers announced by \<^verbatim>\<open>print(f"Scraping page {page_num}: {url}")\<close>.\<close>

fun pages_announced :: "event list \<Rightarrow> int list" where
  "pages_announced [] = []"
| "pages_announced (ScrapingPage p # evs) = p # pages_announced evs"
| "pages_announced (ev # evs) = pages_announced evs"

text \<open>
  A reference is relative when it has no scheme of its own (RFC 3986, section 4.2), as
  \<^verbatim>\<open>urlsplit\<close> reads it.
\<close>

definition relative_reference :: "(string \<Rightarrow> bool) \<Rightarrow> string \<Rightarrow> bool" where
  "relative_reference host_ok ref =
     (case urlsplit host_ok ref [] of Inl e \<Rightarrow> False | Inr r \<Rightarrow> sr_scheme r = [])"

section \<open>\<^verbatim>\<open>save_to_csv\<close>\<close>

text \<open>
  The \<^verbatim>\<open>csv\<close> writer with its default dialect: fields are separated by a comma, a row ends
  with CR LF, and a field is put in double quotes (with every double quote in it doubled)
  when it contains a comma, a double quote, CR or LF. A row made of one empty field is
  written as a pair of quotes.
\<close>

definition DQUOTE :: char where
  "DQUOTE = char_of (34::nat)"

definition needs_quotes :: "string \<Rightarrow> bool" where
  "needs_quotes field = (\<exists>c \<in> set field. c = CHR '','' \<or> c = DQUOTE \<or> c = CR \<or> c = LF)"

definition csv_field :: "string \<Rightarrow> string" where
  "csv_field field =
     (if needs_quotes field
      then [DQUOTE] @ concat (map (\<lambda>c. if c = DQUOTE then [c, c] else [c]) field) @ [DQUOTE]
      else field)"

definition writerow :: "string list \<Rightarrow> string" where
  "writerow row =
     (if row = [[]] then [DQUOTE, DQUOTE] else join '','' (map csv_field row)) @ [CR, LF]"

definition fieldnames :: "string list" where
  "fieldnames = [''name'', ''image_url'', ''rating'', ''genre'']"

text \<open>The row of a record: its value for each field name, in the order of \<open>fieldnames\<close>.\<close>

definition row_of :: "movie \<Rightarrow> string list" where
  "row_of m = [name m, image_url m, rating m, genre m]"

record save_result =
  files :: "string \<rightharpoonup> string"
  messages :: "event list"

text \<open>
  Lines 153-172. The file system is a map from names to contents; \<open>writable filename\<close>
  tells whether \<^verbatim>\<open>open(filename, 'w')\<close> succeeds (it raises \<^verbatim>\<open>IOError\<close> otherwise). A
  failure in the middle of writing is not modelled.
\<close>

definition save_to_csv ::
  "(string \<Rightarrow> bool) \<Rightarrow> (string \<rightharpoonup> string) \<Rightarrow> movie list \<Rightarrow> string \<Rightarrow> save_result" where
  "save_to_csv writable fs movie_list filename =
     (if movie_list = [] then \<lparr>files = fs, messages = [NoMoviesToSave]\<rparr>
      else if writable filename
      then \<lparr>files = fs(filename \<mapsto>
                      writerow fieldnames @ concat (map (\<lambda>m. writerow (row_of m)) movie_list)),
             messages = [SavedMessage (length movie_list) filename]\<rparr>
      else \<lparr>files = fs, messages = [SaveError IOError]\<rparr>)"

text \<open>
  The lines of a text file, as a reader sees them: a line ends at LF, at CR LF or at a
  lone CR, and the characters after the last line end, if any, are a last line.
\<close>

fun lines_from :: "string \<Rightarrow> string \<Rightarrow> string list" where
  "lines_from cur [] = (if cur = [] then [] else [cur])"
| "lines_from cur [c] = (if c = LF \<or> c = CR then [cur] else [cur @ [c]])"
| "lines_from cur (c # d # cs) =
     (if c = LF then cur # lines_from [] (d # cs)
      else if c = CR then
        (if d = LF then cur # lines_from [] cs else cur # lines_from [] (d # cs))
      else lines_from (cur @ [c]) (d # cs))"

definition file_lines :: "string \<Rightarrow> string list" where
  "file_lines content = lines_from [] content"

text \<open>A string with no line break in it.\<close>

definition unbroken :: "string \<Rightarrow> bool" where
  "unbroken s = (CR \<notin> set s \<and> LF \<notin> set s)"

text \<open>The text of a record's row, before the line end.\<close>

definition row_text :: "movie \<Rightarrow> string" where
  "row_text m = join '','' (map csv_field (row_of m))"

section \<open>Example documents\<close>

definition any_host :: "string \<Rightarrow> bool" where
  "any_host h = True"

definition item_of :: "node list \<Rightarrow> node" where
  "item_of contents = Tag ''div'' [''el-card'', ''item''] [] contents"

definition img_of :: "string \<Rightarrow> node" where
  "img_of src = Tag ''img'' [''cover''] [(''src'', src)] []"




definition well_formed_item :: "string \<Rightarrow> node" where
  "well_formed_item title = item_of
     [Tag ''a'' [] [(''href'', ''/detail/1'')] [img_of ''/img/x.jpg''],
      Tag ''a'' [''name''] [(''href'', ''/detail/1'')]
        [Tag ''h2'' [] [] [NavigableString title]],
      Tag ''div'' [''categories'']  []
        [Tag ''button'' [''el-button'', ''category''] [] [NavigableString '' Drama ''],
         Tag ''button'' [''el-button'', ''category''] [] [NavigableString ''Crime'']],
      Tag ''p'' [''score''] [] [NavigableString '' 9.5 '']]"

definition no_image_item :: node where
  "no_image_item = item_of
     [Tag ''a'' [''name''] [] [NavigableString ''No picture''],
      Tag ''p'' [''score''] [] [NavigableString ''7.0'']]"

definition empty_src_item :: node where
  "empty_src_item = item_of
     [img_of [], Tag ''a'' [''name''] [] [NavigableString ''Empty source'']]"

definition bad_host_item :: node where
  "bad_host_item = item_of
     [img_of ''//[x'',
      Tag ''a'' [''name''] [(''title'', ''Farewell'')] [NavigableString ''Farewell''],
      Tag ''p'' [''score''] [] [NavigableString ''9.5''],
      Tag ''button'' [''category''] [] [NavigableString ''Drama'']]"

definition http_prefixed_item :: node where
  "http_prefixed_item = item_of [img_of ''httpx/p.jpg'']"

definition empty_rating_item :: node where
  "empty_rating_item = item_of
     [img_of ''/img/x.jpg'', Tag ''p'' [''score''] [] [NavigableString ''  '']]"

definition split_label_item :: node where
  "split_label_item = item_of
     [img_of ''/img/x.jpg'',
      Tag ''button'' [''category''] []
        [NavigableString '' Sci '', Tag ''b'' [] [] [NavigableString '' Fi '']],
      Tag ''button'' [''category''] [] [NavigableString ''Crime'']]"

definition sentinel_score_item :: node where
  "sentinel_score_item = item_of
     [img_of ''/img/x.jpg'', Tag ''p'' [''score''] [] [NavigableString ''N/A'']]"

definition nbsp_score_item :: node where
  "nbsp_score_item = item_of
     [img_of ''/img/x.jpg'', Tag ''p'' [''score''] [] [NavigableString [char_of (160::nat)]]]"

definition page_of :: "node list \<Rightarrow> node" where
  "page_of items = Tag ''[document]'' [] []
     [Tag ''html'' [] [] [Tag ''body'' [] [] [Tag ''div'' [''el-row''] [] items]]]"

definition three_items_page :: node where
  "three_items_page =
     page_of [well_formed_item ''A'', well_formed_item ''B'', well_formed_item ''C'']"

definition mixed_page :: node where
  "mixed_page = page_of [well_formed_item ''A'', bad_host_item, well_formed_item ''C'']"

definition first_page_only :: "int \<Rightarrow> exn + node" where
  "first_page_only page_num =
     (if page_num = 1 then Inr three_items_page else Inl TimeoutException)"

definition second_page_only :: "int \<Rightarrow> exn + node" where
  "second_page_only page_num =
     (if page_num = 2 then Inr three_items_page else Inl WebDriverException)"

definition two_line_title :: movie where
  "two_line_title = \<lparr>name = [CHR ''A'', LF, CHR ''B''], image_url = ''https://ssr1.scrape.center/img/x.jpg'',
                     rating = ''9.5'', genre = ''Drama''\<rparr>"

definition two_line_item :: node where
  "two_line_item = item_of
     [img_of ''https://ssr1.scrape.center/img/x.jpg'',
      Tag ''a'' [''name''] [(''title'', [CHR ''A'', LF, CHR ''B''])] [],
      Tag ''p'' [''score''] [] [NavigableString ''9.5''],
      Tag ''button'' [''category''] [] [NavigableString ''Drama'']]"

definition nowhere :: "string \<rightharpoonup> string" where
  "nowhere = Map.empty"

definition always_writable :: "string \<Rightarrow> bool" where
  "always_writable filename = True"

section \<open>Facts about URL resolution against the base URL\<close>

lemma base_parse:
  "urlparse h BASE_URL [] = Inr \<lparr>pr_scheme = ''https'', pr_netloc = ''ssr1.scrape.center'',
     pr_path = [], pr_params = [], pr_query = [], pr_fragment = []\<rparr>"
  by code_simp

lemma sentinel_parse:
  "urlparse h ''N/A'' ''https'' = Inr \<lparr>pr_scheme = ''https'', pr_netloc = [],
     pr_path = ''N/A'', pr_params = [], pr_query = [], pr_fragment = []\<rparr>"
  by code_simp

lemma https_relative: "''https'' \<in> set uses_relative"
  by code_simp

lemma urlunsplit_scheme:
  "sr_scheme r \<noteq> [] \<Longrightarrow> \<exists>rest. urlunsplit r = sr_scheme r @ '':'' @ rest"
  by (simp add: urlunsplit_def Let_def)

lemma urlunparse_scheme:
  "pr_scheme p \<noteq> [] \<Longrightarrow> \<exists>rest. urlunparse p = pr_scheme p @ '':'' @ rest"
  unfolding urlunparse_def
  using urlunsplit_scheme[of "\<lparr>sr_scheme = pr_scheme p, sr_netloc = pr_netloc p,
                 sr_path = (if pr_params p \<noteq> [] then pr_path p @ '';'' @ pr_params p
                            else pr_path p),
                 sr_query = pr_query p, sr_fragment = pr_fragment p\<rparr>"]
  by simp

lemma urlunparse_https_prefix:
  "pr_scheme p = ''https'' \<Longrightarrow> take 6 (urlunparse p) = ''https:''"
  using urlunparse_scheme[of p] by auto

text \<open>Whatever the source, resolving it against the base URL never gives the sentinel.\<close>

lemma urljoin_not_sentinel:
  assumes "urljoin h BASE_URL src = Inr u"
  shows "u \<noteq> ''N/A''"
proof
  assume u: "u = ''N/A''"
  have nb: "BASE_URL \<noteq> []" by (simp add: BASE_URL_def)
  show False
  proof (cases "src = []")
    case True
    with assms nb have "u = BASE_URL" by (simp add: urljoin_def)
    with u show False by (simp add: BASE_URL_def)
  next
    case False
    show False
    proof (cases "urlparse h src ''https''")
      case (Inl e)
      with assms False nb show False by (simp add: urljoin_def base_parse)
    next
      case (Inr p)
      show False
      proof (cases "pr_scheme p \<noteq> ''https''")
        case True
        with assms False nb Inr have "u = src" by (simp add: urljoin_def base_parse)
        with u have "src = ''N/A''" by simp
        with Inr sentinel_parse[of h] have "pr_scheme p = ''https''" by auto
        with True show False by simp
      next
        case sch: False
        hence "take 6 u = ''https:''"
          using assms False nb Inr https_relative
          by (auto simp add: urljoin_def base_parse Let_def urlunparse_https_prefix
                split: if_splits)
        then show False using u by simp
      qed
    qed
  qed
qed

section \<open>Facts about the two loops\<close>

lemma movies_emit: "movies (emit ev st) = movies st"
  by (simp add: emit_def)

lemma printed_emit: "printed (emit ev st) = printed st @ [ev]"
  by (simp add: emit_def)

lemma process_items_append:
  "process_items h (xs @ ys) st = process_items h ys (process_items h xs st)"
  by (induction xs arbitrary: st) simp_all

lemma movies_one_item:
  "movies (process_items h [item] st) = movies st @ movies (process_items h [item] initial_state)"
  by (simp add: movies_emit initial_state_def split: sum.split option.split)

text \<open>The records a list of items adds do not depend on what was collected before.\<close>

lemma movies_process_items:
  "movies (process_items h items st) = movies st @ movies (process_items h items initial_state)"
proof (induction items arbitrary: st)
  case Nil
  then show ?case by (simp add: initial_state_def)
next
  case (Cons x xs)
  have split: "\<And>s. process_items h (x # xs) s = process_items h xs (process_items h [x] s)"
    using process_items_append[of h "[x]" xs] by simp
  have "movies (process_items h (x # xs) st)
        = movies (process_items h [x] st) @ movies (process_items h xs initial_state)"
    unfolding split using Cons[of "process_items h [x] st"] .
  also have "\<dots> = movies st @ movies (process_items h [x] initial_state)
                  @ movies (process_items h xs initial_state)"
    using movies_one_item[of h x st] by simp
  also have "movies (process_items h [x] initial_state) @ movies (process_items h xs initial_state)
        = movies (process_items h (x # xs) initial_state)"
    unfolding split using Cons[of "process_items h [x] initial_state"] by simp
  finally show ?case .
qed

lemma movies_scrape_page:
  "movies (scrape_page h b n p st) = movies st @ movies (scrape_page h b n p initial_state)"
proof (cases "b p")
  case (Inl e)
  then show ?thesis by (simp add: scrape_page_def movies_emit initial_state_def)
next
  case (Inr soup)
  have mp: "\<And>s items. movies (process_items h items s)
              = movies s @ movies (process_items h items initial_state)"
    by (rule movies_process_items)
  show ?thesis
    using Inr
    by (simp add: scrape_page_def Let_def movies_emit
          mp[of _ "emit (ScrapingPage p) st"] mp[of _ "emit (ScrapingPage p) initial_state"]
          mp[of _ "emit (NoItemsFound p) (emit (ScrapingPage p) st)"]
          mp[of _ "emit (NoItemsFound p) (emit (ScrapingPage p) initial_state)"])
       (simp add: initial_state_def)
qed

lemma movies_foldl_pages:
  "movies (foldl (\<lambda>st p. scrape_page h b n p st) st ps) =
   movies st @ concat (map (\<lambda>p. movies (scrape_page h b n p initial_state)) ps)"
proof (induction ps arbitrary: st)
  case Nil
  then show ?case by simp
next
  case (Cons p ps)
  show ?case using movies_scrape_page[of h b n p st] by (simp add: Cons)
qed

lemma movies_scrape_movies:
  "movies (scrape_movies h b n) =
   concat (map (\<lambda>p. movies (scrape_page h b n p initial_state)) (py_range 1 (n + 1)))"
  by (simp add: scrape_movies_def movies_foldl_pages initial_state_def)

section \<open>The inclusion gate\<close>

lemma parse_item_gate:
  "parse_item h item = Inr (Some m) \<Longrightarrow> image_url m \<noteq> ''N/A''"
  by (auto simp add: parse_item_def Let_def NA_def split: sum.splits if_splits)

lemma process_items_gate:
  "\<forall>m \<in> set (movies st). image_url m \<noteq> ''N/A'' \<Longrightarrow>
   \<forall>m \<in> set (movies (process_items h items st)). image_url m \<noteq> ''N/A''"
proof (induction items arbitrary: st)
  case Nil
  then show ?case by simp
next
  case (Cons x xs)
  show ?case
  proof (cases "parse_item h x")
    case (Inl e)
    then show ?thesis using Cons.IH[of "emit (ItemError e) st"] Cons.prems
      by (simp add: movies_emit)
  next
    case (Inr r)
    show ?thesis
    proof (cases r)
      case None
      then show ?thesis using Inr Cons.IH[of st] Cons.prems by simp
    next
      case (Some m)
      have "\<forall>m' \<in> set (movies (emit (Found (name m) (rating m)) (st\<lparr>movies := movies st @ [m]\<rparr>))).
              image_url m' \<noteq> ''N/A''"
        using Cons.prems parse_item_gate[of h x m] Inr Some by (simp add: movies_emit)
      from Cons.IH[OF this] show ?thesis using Inr Some by simp
    qed
  qed
qed

text \<open>What one page contributes.\<close>

lemma movies_page_failed:
  "b p = Inl e \<Longrightarrow> movies (scrape_page h b n p st) = movies st"
  by (simp add: scrape_page_def movies_emit)

lemma movies_page_rendered:
  assumes "b p = Inr soup"
  shows "movies (scrape_page h b n p st)
         = movies st @ movies (process_items h (find_all ''div'' (Some ''item'') soup) initial_state)"
proof -
  have mp: "\<And>s items. movies (process_items h items s)
              = movies s @ movies (process_items h items initial_state)"
    by (rule movies_process_items)
  show ?thesis
    using assms
    by (simp add: scrape_page_def Let_def movies_emit
          mp[of _ "emit (ScrapingPage p) st"]
          mp[of _ "emit (NoItemsFound p) (emit (ScrapingPage p) st)"])
       (simp add: initial_state_def)
qed

lemma scrape_page_gate:
  "\<forall>m \<in> set (movies (scrape_page h b n p initial_state)). image_url m \<noteq> ''N/A''"
proof (cases "b p")
  case (Inl e)
  then show ?thesis by (simp add: movies_page_failed initial_state_def)
next
  case (Inr soup)
  have "\<forall>m \<in> set (movies (process_items h (find_all ''div'' (Some ''item'') soup) initial_state)).
            image_url m \<noteq> ''N/A''"
    by (rule process_items_gate) (simp add: initial_state_def)
  then show ?thesis
    using movies_page_rendered[of b p soup h n initial_state] Inr
    by (simp add: initial_state_def)
qed

text \<open>
  The image URL is the sentinel exactly when there is no image element or its source is
  missing or empty: no source resolves to the sentinel.
\<close>

lemma image_url_excluded_iff:
  "extract_image_url h item = Inr ''N/A'' \<longleftrightarrow>
     (case find_elem ''img'' None item of
        None \<Rightarrow> True
      | Some img \<Rightarrow> get img ''src'' = None \<or> get img ''src'' = Some [])"
  using urljoin_not_sentinel[of h]
  by (auto simp add: extract_image_url_def NA_def startswith_def split: option.splits)

lemma http_prefix_not_sentinel: "startswith src ''http'' \<Longrightarrow> src \<noteq> ''N/A''"
  by (auto simp add: startswith_def)

section \<open>The pages the run announces\<close>

lemma pages_announced_append:
  "pages_announced (xs @ ys) = pages_announced xs @ pages_announced ys"
  by (induction xs rule: pages_announced.induct) simp_all

lemma pages_announced_emit:
  "pages_announced (printed (emit ev st))
   = pages_announced (printed st) @ pages_announced [ev]"
  by (simp add: printed_emit pages_announced_append)

lemma pages_announced_process_items:
  "pages_announced (printed (process_items h items st)) = pages_announced (printed st)"
  by (induction items arbitrary: st)
     (simp_all add: pages_announced_emit emit_def pages_announced_append
        split: sum.split option.split)

lemma pages_announced_scrape_page:
  "pages_announced (printed (scrape_page h b n p st)) = pages_announced (printed st) @ [p]"
  by (simp add: scrape_page_def Let_def pages_announced_emit pages_announced_process_items
        split: sum.split)

lemma pages_announced_foldl:
  "pages_announced (printed (foldl (\<lambda>st p. scrape_page h b n p st) st ps))
   = pages_announced (printed st) @ ps"
  by (induction ps arbitrary: st) (simp_all add: pages_announced_scrape_page)

lemma py_range_from_one: "py_range 1 (n + 1) = [1..n]"
  by (simp add: py_range_def)

lemma upto_one_two: "[1..2] = [1, 2::int]"
  by code_simp

section \<open>The lines of the written file\<close>

lemma CR_not_LF: "CR \<noteq> LF"
  by code_simp

lemma DQUOTE_not_break: "DQUOTE \<noteq> CR \<and> DQUOTE \<noteq> LF"
  by code_simp

lemma comma_not_break: "CHR '','' \<noteq> CR \<and> CHR '','' \<noteq> LF"
  by code_simp

lemma lines_from_plain_char:
  "c \<noteq> CR \<Longrightarrow> c \<noteq> LF \<Longrightarrow> lines_from cur (c # d # r) = lines_from (cur @ [c]) (d # r)"
  by simp

lemma lines_from_line:
  "unbroken body \<Longrightarrow>
   lines_from cur (body @ CR # LF # rest) = (cur @ body) # lines_from [] rest"
proof (induction body arbitrary: cur)
  case Nil
  then show ?case using CR_not_LF by simp
next
  case (Cons c cs)
  then have c: "c \<noteq> CR" "c \<noteq> LF" and cs: "unbroken cs"
    by (auto simp add: unbroken_def)
  obtain d r where dr: "cs @ CR # LF # rest = d # r"
    by (cases cs) auto
  have "lines_from cur ((c # cs) @ CR # LF # rest) = lines_from (cur @ [c]) (cs @ CR # LF # rest)"
    using lines_from_plain_char[OF c, of cur d r] dr by simp
  also have "\<dots> = ((cur @ [c]) @ cs) # lines_from [] rest"
    by (rule Cons.IH[OF cs])
  finally show ?case by simp
qed

lemma file_lines_rows:
  "\<forall>b \<in> set bodies. unbroken b \<Longrightarrow>
   file_lines (concat (map (\<lambda>b. b @ [CR, LF]) bodies)) = bodies"
proof (induction bodies)
  case Nil
  then show ?case by (simp add: file_lines_def)
next
  case (Cons b bs)
  then have "unbroken b" and "file_lines (concat (map (\<lambda>b. b @ [CR, LF]) bs)) = bs"
    by simp_all
  then show ?case
    using lines_from_line[of b "[]" "concat (map (\<lambda>b. b @ [CR, LF]) bs)"]
    by (simp add: file_lines_def)
qed

lemma unbroken_csv_field: "unbroken f \<Longrightarrow> unbroken (csv_field f)"
  using DQUOTE_not_break by (auto simp add: unbroken_def csv_field_def split: if_splits)

lemma unbroken_join:
  "\<forall>f \<in> set fs. unbroken f \<Longrightarrow> unbroken (join '','' fs)"
  using comma_not_break
  by (induction "'',''" fs rule: join.induct) (auto simp add: unbroken_def)

lemma header_row: "writerow fieldnames = ''name,image_url,rating,genre'' @ [CR, LF]"
  by code_simp

lemma unbroken_header: "unbroken ''name,image_url,rating,genre''"
  by code_simp

lemma writerow_row_of: "writerow (row_of m) = row_text m @ [CR, LF]"
  by (simp add: writerow_def row_of_def row_text_def)

lemma unbroken_row_text:
  "\<forall>f \<in> set (row_of m). unbroken f \<Longrightarrow> unbroken (row_text m)"
  unfolding row_text_def by (rule unbroken_join) (simp add: unbroken_csv_field)

lemma file_content:
  "writerow fieldnames @ concat (map (\<lambda>m. writerow (row_of m)) ms)
   = concat (map (\<lambda>b. b @ [CR, LF]) (''name,image_url,rating,genre'' # map row_text ms))"
  by (simp add: header_row writerow_row_of comp_def)

lemma file_first_line:
  "hd (file_lines (writerow fieldnames @ rest)) = ''name,image_url,rating,genre''"
  using lines_from_line[OF unbroken_header, of "[]" rest]
  by (simp add: file_lines_def header_row)

section \<open>Stripped text and trimmed text\<close>

lemma strip_by_empty_iff: "strip_by P s = [] \<longleftrightarrow> (\<forall>c \<in> set s. P c)"
proof
  assume "strip_by P s = []"
  then have "dropWhile P (rev (dropWhile P s)) = []"
    by (simp add: strip_by_def rstrip_by_def lstrip_by_def)
  then have "\<forall>c \<in> set (dropWhile P s). P c"
    by simp
  then have "dropWhile P s = []"
    using hd_dropWhile[of P s] hd_in_set[of "dropWhile P s"] by blast
  then show "\<forall>c \<in> set s. P c" by simp
next
  assume "\<forall>c \<in> set s. P c"
  then have d: "dropWhile P s = []" by simp
  show "strip_by P s = []"
    unfolding strip_by_def rstrip_by_def lstrip_by_def d by simp
qed

lemma strip_empty_iff: "strip s = [] \<longleftrightarrow> (\<forall>c \<in> set s. isspace c)"
  by (simp add: strip_def strip_by_empty_iff)

text \<open>The stripped text of a tag is empty exactly when its trimmed text is.\<close>

lemma get_text_strip_empty_iff: "get_text_strip e = [] \<longleftrightarrow> strip (get_text e) = []"
  by (auto simp add: get_text_strip_def get_text_def strip_empty_iff)

text \<open>Below a tag that holds one string, the stripped text is the trimmed text.\<close>

lemma get_text_strip_single:
  "get_text_strip (Tag nm cls attrs [NavigableString s]) = strip s"
  by (simp add: get_text_strip_def)

lemma get_text_single:
  "get_text (Tag nm cls attrs [NavigableString s]) = s"
  by (simp add: get_text_def)

section \<open>The claims\<close>

text \<open>
  C1. Every record returned by \<^verbatim>\<open>scrape_movies\<close> has an \<open>image_url\<close> other than the
  sentinel \<open>N/A\<close>; an item with no image element, or whose image element has no source or
  an empty one, gives no record and leaves the state of the run as it was, whatever the
  page and the position of the item.
\<close>

theorem image_gate:
  "(\<forall>m \<in> set (movies (scrape_movies h b n)). image_url m \<noteq> ''N/A'')
   \<and> (find_elem ''img'' None item = None \<longrightarrow>
        parse_item h item = Inr None \<and> process_items h [item] st = st)
   \<and> (\<forall>img. find_elem ''img'' None item = Some img
          \<and> (get img ''src'' = None \<or> get img ''src'' = Some []) \<longrightarrow>
        parse_item h item = Inr None \<and> process_items h [item] st = st)"
proof (intro conjI allI impI)
  show "\<forall>m \<in> set (movies (scrape_movies h b n)). image_url m \<noteq> ''N/A''"
    using scrape_page_gate[of h b n] by (auto simp add: movies_scrape_movies)
next
  assume "find_elem ''img'' None item = None"
  then have "extract_image_url h item = Inr NA" by (simp add: extract_image_url_def)
  then show "parse_item h item = Inr None" by (simp add: parse_item_def)
  then show "process_items h [item] st = st" by simp
next
  fix img
  assume "find_elem ''img'' None item = Some img
          \<and> (get img ''src'' = None \<or> get img ''src'' = Some [])"
  then have "extract_image_url h item = Inr NA" by (auto simp add: extract_image_url_def)
  then show "parse_item h item = Inr None" by (simp add: parse_item_def)
  then show "process_items h [item] st = st" by simp
qed

theorem image_gate_witness:
  "\<lparr>name = ''A'', image_url = ''https://ssr1.scrape.center/img/x.jpg'',
     rating = ''9.5'', genre = ''Drama Crime''\<rparr>
     \<in> set (movies (scrape_movies any_host first_page_only 2))
   \<and> ''https://ssr1.scrape.center/img/x.jpg'' \<noteq> ''N/A''
   \<and> find_elem ''img'' None no_image_item = None
   \<and> parse_item any_host no_image_item = Inr None
   \<and> find_elem ''img'' None empty_src_item = Some (img_of [])
   \<and> get (img_of []) ''src'' = Some []
   \<and> parse_item any_host empty_src_item = Inr None"
proof -
  have m: "\<lparr>name = ''A'', image_url = ''https://ssr1.scrape.center/img/x.jpg'',
     rating = ''9.5'', genre = ''Drama Crime''\<rparr>
     \<in> set (movies (scrape_movies any_host first_page_only 2))"
    by code_simp
  have a: "find_elem ''img'' None no_image_item = None" by code_simp
  have b: "find_elem ''img'' None empty_src_item = Some (img_of [])" by code_simp
  have c: "get (img_of []) ''src'' = Some []" by code_simp
  from image_gate[of any_host first_page_only 2 no_image_item initial_state] m a
  have 1: "''https://ssr1.scrape.center/img/x.jpg'' \<noteq> ''N/A''
           \<and> parse_item any_host no_image_item = Inr None"
    by force
  from image_gate[of any_host first_page_only 2 empty_src_item initial_state] b c
  have 2: "parse_item any_host empty_src_item = Inr None" by blast
  from m a b c 1 2 show ?thesis by blast
qed

text \<open>
  C2 as stated fails: \<open>httpx/p.jpg\<close> is a relative reference, its resolution against the
  base URL is \<open>https://ssr1.scrape.center/httpx/p.jpg\<close>, but it begins with \<open>http\<close> and
  the record carries it unresolved.
\<close>

theorem http_prefix_counterexample:
  "relative_reference any_host ''httpx/p.jpg''
   \<and> urljoin any_host BASE_URL ''httpx/p.jpg'' = Inr ''https://ssr1.scrape.center/httpx/p.jpg''
   \<and> find_elem ''img'' None http_prefixed_item = Some (img_of ''httpx/p.jpg'')
   \<and> get (img_of ''httpx/p.jpg'') ''src'' = Some ''httpx/p.jpg''
   \<and> parse_item any_host http_prefixed_item
       = Inr (Some \<lparr>name = ''N/A'', image_url = ''httpx/p.jpg'', rating = ''N/A'',
                     genre = ''N/A''\<rparr>)"
  by code_simp

text \<open>
  C2, as the code has it. For an item whose first image element has a non-empty source: a
  source that begins with the four characters \<open>http\<close> is emitted unchanged; any other
  source is emitted as \<^verbatim>\<open>urljoin(BASE_URL, source)\<close>, its resolution against the base URL,
  and the item is aborted when the resolution raises. For the source \<open>/img/x.jpg\<close> and the
  base URL \<open>https://ssr1.scrape.center\<close> the resolution is
  \<open>https://ssr1.scrape.center/img/x.jpg\<close>.
\<close>

theorem image_url_resolution:
  assumes "find_elem ''img'' None item = Some img"
    and "get img ''src'' = Some src"
    and "src \<noteq> []"
  shows "(startswith src ''http'' \<longrightarrow>
            (\<exists>m. parse_item h item = Inr (Some m) \<and> image_url m = src))
       \<and> (\<not> startswith src ''http'' \<longrightarrow>
            (\<forall>u. urljoin h BASE_URL src = Inr u \<longrightarrow>
                 (\<exists>m. parse_item h item = Inr (Some m) \<and> image_url m = u))
            \<and> (\<forall>e. urljoin h BASE_URL src = Inl e \<longrightarrow> parse_item h item = Inl e))
       \<and> BASE_URL = ''https://ssr1.scrape.center''
       \<and> urljoin h BASE_URL ''/img/x.jpg'' = Inr ''https://ssr1.scrape.center/img/x.jpg''"
proof (intro conjI impI allI)
  assume p: "startswith src ''http''"
  with assms have "extract_image_url h item = Inr src"
    by (simp add: extract_image_url_def)
  with http_prefix_not_sentinel[OF p]
  show "\<exists>m. parse_item h item = Inr (Some m) \<and> image_url m = src"
    by (simp add: parse_item_def NA_def)
next
  fix u
  assume p: "\<not> startswith src ''http''" and u: "urljoin h BASE_URL src = Inr u"
  with assms have "extract_image_url h item = Inr u"
    by (simp add: extract_image_url_def)
  with urljoin_not_sentinel[OF u]
  show "\<exists>m. parse_item h item = Inr (Some m) \<and> image_url m = u"
    by (simp add: parse_item_def NA_def)
next
  fix e
  assume p: "\<not> startswith src ''http''" and u: "urljoin h BASE_URL src = Inl e"
  with assms have "extract_image_url h item = Inl e"
    by (simp add: extract_image_url_def)
  then show "parse_item h item = Inl e"
    by (simp add: parse_item_def)
next
  show "BASE_URL = ''https://ssr1.scrape.center''" by (simp add: BASE_URL_def)
next
  show "urljoin h BASE_URL ''/img/x.jpg'' = Inr ''https://ssr1.scrape.center/img/x.jpg''"
    by code_simp
qed

theorem image_url_resolution_witness:
  "find_elem ''img'' None (well_formed_item ''A'') = Some (img_of ''/img/x.jpg'')
   \<and> get (img_of ''/img/x.jpg'') ''src'' = Some ''/img/x.jpg''
   \<and> \<not> startswith ''/img/x.jpg'' ''http''
   \<and> (\<exists>m. parse_item any_host (well_formed_item ''A'') = Inr (Some m)
          \<and> image_url m = ''https://ssr1.scrape.center/img/x.jpg'')
   \<and> find_elem ''img'' None two_line_item = Some (img_of ''https://ssr1.scrape.center/img/x.jpg'')
   \<and> startswith ''https://ssr1.scrape.center/img/x.jpg'' ''http''
   \<and> (\<exists>m. parse_item any_host two_line_item = Inr (Some m)
          \<and> image_url m = ''https://ssr1.scrape.center/img/x.jpg'')
   \<and> find_elem ''img'' None bad_host_item = Some (img_of ''//[x'')
   \<and> urljoin any_host BASE_URL ''//[x'' = Inl ValueError
   \<and> parse_item any_host bad_host_item = Inl ValueError"
proof -
  have a1: "find_elem ''img'' None (well_formed_item ''A'') = Some (img_of ''/img/x.jpg'')"
    by code_simp
  have a2: "get (img_of ''/img/x.jpg'') ''src'' = Some ''/img/x.jpg''" by code_simp
  have a3: "''/img/x.jpg'' \<noteq> []" by simp
  have a4: "\<not> startswith ''/img/x.jpg'' ''http''" by code_simp
  have b1: "find_elem ''img'' None two_line_item
            = Some (img_of ''https://ssr1.scrape.center/img/x.jpg'')"
    by code_simp
  have b2: "get (img_of ''https://ssr1.scrape.center/img/x.jpg'') ''src''
            = Some ''https://ssr1.scrape.center/img/x.jpg''" by code_simp
  have b3: "''https://ssr1.scrape.center/img/x.jpg'' \<noteq> []" by simp
  have b4: "startswith ''https://ssr1.scrape.center/img/x.jpg'' ''http''" by code_simp
  have c1: "find_elem ''img'' None bad_host_item = Some (img_of ''//[x'')" by code_simp
  have c2: "get (img_of ''//[x'') ''src'' = Some ''//[x''" by code_simp
  have c3: "''//[x'' \<noteq> []" by simp
  have c4: "\<not> startswith ''//[x'' ''http''" by code_simp
  have c5: "urljoin any_host BASE_URL ''//[x'' = Inl ValueError" by code_simp
  from image_url_resolution[OF a1 a2 a3, of any_host] a4
  have A: "\<exists>m. parse_item any_host (well_formed_item ''A'') = Inr (Some m)
          \<and> image_url m = ''https://ssr1.scrape.center/img/x.jpg''"
    by blast
  from image_url_resolution[OF b1 b2 b3, of any_host] b4
  have B: "\<exists>m. parse_item any_host two_line_item = Inr (Some m)
          \<and> image_url m = ''https://ssr1.scrape.center/img/x.jpg''"
    by blast
  from image_url_resolution[OF c1 c2 c3, of any_host] c4 c5
  have C: "parse_item any_host bad_host_item = Inl ValueError"
    by blast
  from a1 a2 a4 A b1 b4 B c1 c5 C show ?thesis by blast
qed




text \<open>
  C4 as stated fails on a label whose text is split over several strings. The trimmed text
  of the first label below is \<open>Sci  Fi\<close>, and joining the trimmed texts gives
  \<open>Sci  Fi Crime\<close>; the code strips each string of the label and puts them together with
  nothing between, and the genre is \<open>SciFi Crime\<close>.
\<close>

theorem split_label_counterexample:
  "find_all ''button'' (Some ''category'') split_label_item
     = [Tag ''button'' [''category''] []
          [NavigableString '' Sci '', Tag ''b'' [] [] [NavigableString '' Fi '']],
        Tag ''button'' [''category''] [] [NavigableString ''Crime'']]
   \<and> join '' '' (map (strip \<circ> get_text)
          (find_all ''button'' (Some ''category'') split_label_item)) = ''Sci  Fi Crime''
   \<and> extract_genre split_label_item = ''SciFi Crime''
   \<and> parse_item any_host split_label_item
       = Inr (Some \<lparr>name = ''N/A'', image_url = ''https://ssr1.scrape.center/img/x.jpg'',
                     rating = ''N/A'', genre = ''SciFi Crime''\<rparr>)"
  by code_simp

text \<open>
  C4, as the code has it. The genre is built from all the \<^verbatim>\<open>button\<close> elements of class
  \<open>category\<close> below the container, not only the first, in document order: their texts as
  \<^verbatim>\<open>get_text(strip=True)\<close> gives them (every string of the element trimmed, the empty ones
  dropped, the rest put together with no separator) joined by one space. For an element
  that holds one string this text is the trimmed text of the element. With no such element
  the genre is the sentinel \<open>N/A\<close>; with the elements \<open>Drama\<close> and \<open>Crime\<close> it is
  \<open>Drama Crime\<close>.
\<close>

theorem genre_join:
  "(find_all ''button'' (Some ''category'') item = [] \<longrightarrow> extract_genre item = ''N/A'')
   \<and> (find_all ''button'' (Some ''category'') item \<noteq> [] \<longrightarrow>
        extract_genre item
          = join '' '' (map get_text_strip
                         (filter (matches ''button'' (Some ''category'')) (descendants item))))
   \<and> (\<forall>m. parse_item h item = Inr (Some m) \<longrightarrow> genre m = extract_genre item)
   \<and> find_all ''button'' (Some ''category'') (well_formed_item title)
       = [Tag ''button'' [''el-button'', ''category''] [] [NavigableString '' Drama ''],
          Tag ''button'' [''el-button'', ''category''] [] [NavigableString ''Crime'']]
   \<and> extract_genre (well_formed_item title) = ''Drama Crime''
   \<and> get_text_strip (Tag nm cls attrs [NavigableString label])
       = strip (get_text (Tag nm cls attrs [NavigableString label]))"
proof (intro conjI allI impI)
  assume "find_all ''button'' (Some ''category'') item = []"
  then show "extract_genre item = ''N/A''" by (simp add: extract_genre_def NA_def)
next
  assume "find_all ''button'' (Some ''category'') item \<noteq> []"
  then show "extract_genre item
          = join '' '' (map get_text_strip
                         (filter (matches ''button'' (Some ''category'')) (descendants item)))"
    by (simp add: extract_genre_def Let_def find_all_def)
next
  fix m
  assume "parse_item h item = Inr (Some m)"
  then show "genre m = extract_genre item"
    by (auto simp add: parse_item_def Let_def split: sum.splits if_splits)
next
  show "find_all ''button'' (Some ''category'') (well_formed_item title)
       = [Tag ''button'' [''el-button'', ''category''] [] [NavigableString '' Drama ''],
          Tag ''button'' [''el-button'', ''category''] [] [NavigableString ''Crime'']]"
    by code_simp
next
  show "extract_genre (well_formed_item title) = ''Drama Crime''" by code_simp
next
  show "get_text_strip (Tag nm cls attrs [NavigableString label])
       = strip (get_text (Tag nm cls attrs [NavigableString label]))"
    by (simp only: get_text_strip_single get_text_single)
qed

theorem genre_join_witness:
  "find_all ''button'' (Some ''category'') no_image_item = []
   \<and> extract_genre no_image_item = ''N/A''
   \<and> find_all ''button'' (Some ''category'') (well_formed_item ''A'') \<noteq> []
   \<and> extract_genre (well_formed_item ''A'')
       = join '' '' (map get_text_strip
           (filter (matches ''button'' (Some ''category'')) (descendants (well_formed_item ''A''))))
   \<and> parse_item any_host (well_formed_item ''A'')
       = Inr (Some \<lparr>name = ''A'', image_url = ''https://ssr1.scrape.center/img/x.jpg'',
                     rating = ''9.5'', genre = ''Drama Crime''\<rparr>)
   \<and> genre \<lparr>name = ''A'', image_url = ''https://ssr1.scrape.center/img/x.jpg'',
                     rating = ''9.5'', genre = ''Drama Crime''\<rparr>
       = extract_genre (well_formed_item ''A'')"
proof -
  have a: "find_all ''button'' (Some ''category'') no_image_item = []" by code_simp
  have b: "find_all ''button'' (Some ''category'') (well_formed_item ''A'') \<noteq> []" by code_simp
  have d: "parse_item any_host (well_formed_item ''A'')
       = Inr (Some \<lparr>name = ''A'', image_url = ''https://ssr1.scrape.center/img/x.jpg'',
                     rating = ''9.5'', genre = ''Drama Crime''\<rparr>)" by code_simp
  note g1 = genre_join[of no_image_item any_host]
  note g2 = genre_join[of "well_formed_item ''A''" any_host]
  have A: "extract_genre no_image_item = ''N/A''"
    by (rule mp[OF g1[THEN conjunct1] a])
  have B: "extract_genre (well_formed_item ''A'')
       = join '' '' (map get_text_strip
           (filter (matches ''button'' (Some ''category'')) (descendants (well_formed_item ''A''))))"
    by (rule mp[OF g2[THEN conjunct2, THEN conjunct1] b])
  have D: "genre \<lparr>name = ''A'', image_url = ''https://ssr1.scrape.center/img/x.jpg'',
                     rating = ''9.5'', genre = ''Drama Crime''\<rparr>
       = extract_genre (well_formed_item ''A'')"
    by (rule mp[OF g2[THEN conjunct2, THEN conjunct2, THEN conjunct1, THEN spec] d])
  show ?thesis by (intro conjI a A b B d D)
qed

text \<open>
  C10 as stated fails in its last part: a rating element that is present and whose text is
  \<open>N/A\<close> gives the rating \<open>N/A\<close>, so this value is not proper to the items without a rating
  element.
\<close>

theorem sentinel_text_counterexample:
  "find_elem ''p'' (Some ''score'') sentinel_score_item
     = Some (Tag ''p'' [''score''] [] [NavigableString ''N/A''])
   \<and> extract_rating sentinel_score_item = ''N/A''
   \<and> parse_item any_host sentinel_score_item
       = Inr (Some \<lparr>name = ''N/A'', image_url = ''https://ssr1.scrape.center/img/x.jpg'',
                     rating = ''N/A'', genre = ''N/A''\<rparr>)"
  by code_simp

text \<open>
  C10, as the code has it. When the rating element is present the rating is its text as
  \<^verbatim>\<open>get_text(strip=True)\<close> gives it, so a rating element whose trimmed text is empty gives
  the empty string and not the sentinel. An item without a rating element gets the sentinel
  \<open>N/A\<close>; the rating is \<open>N/A\<close> only for such an item or for one whose rating element has
  the text \<open>N/A\<close> itself.
\<close>

theorem rating_fallback:
  "(\<forall>e. find_elem ''p'' (Some ''score'') item = Some e \<longrightarrow>
        extract_rating item = get_text_strip e)
   \<and> (\<forall>e. find_elem ''p'' (Some ''score'') item = Some e \<and> get_text_strip e = [] \<longrightarrow>
        extract_rating item = [] \<and> extract_rating item \<noteq> ''N/A'')
   \<and> (find_elem ''p'' (Some ''score'') item = None \<longrightarrow> extract_rating item = ''N/A'')
   \<and> (\<forall>m. parse_item h item = Inr (Some m) \<longrightarrow> rating m = extract_rating item)
   \<and> (\<forall>e. find_elem ''p'' (Some ''score'') item = Some e \<and> strip (get_text e) = [] \<longrightarrow>
        extract_rating item = [] \<and> extract_rating item \<noteq> ''N/A'')
   \<and> (extract_rating item = ''N/A'' \<longrightarrow>
        find_elem ''p'' (Some ''score'') item = None
        \<or> (\<exists>e. find_elem ''p'' (Some ''score'') item = Some e \<and> get_text_strip e = ''N/A''))"
proof (intro conjI allI impI)
  fix e
  assume "find_elem ''p'' (Some ''score'') item = Some e"
  then show "extract_rating item = get_text_strip e" by (simp add: extract_rating_def)
next
  fix e
  assume a: "find_elem ''p'' (Some ''score'') item = Some e \<and> get_text_strip e = []"
  then show "extract_rating item = []" by (simp add: extract_rating_def)
  then show "extract_rating item \<noteq> ''N/A''" by simp
next
  assume "find_elem ''p'' (Some ''score'') item = None"
  then show "extract_rating item = ''N/A''" by (simp add: extract_rating_def NA_def)
next
  fix m
  assume "parse_item h item = Inr (Some m)"
  then show "rating m = extract_rating item"
    by (auto simp add: parse_item_def Let_def split: sum.splits if_splits)
next
  fix e
  assume a: "find_elem ''p'' (Some ''score'') item = Some e \<and> strip (get_text e) = []"
  then have "get_text_strip e = []" by (simp add: get_text_strip_empty_iff)
  with a show "extract_rating item = []" by (simp add: extract_rating_def)
  then show "extract_rating item \<noteq> ''N/A''" by simp
next
  assume "extract_rating item = ''N/A''"
  then show "find_elem ''p'' (Some ''score'') item = None
        \<or> (\<exists>e. find_elem ''p'' (Some ''score'') item = Some e \<and> get_text_strip e = ''N/A'')"
    by (cases "find_elem ''p'' (Some ''score'') item") (simp_all add: extract_rating_def)
qed

theorem rating_fallback_witness:
  "find_elem ''p'' (Some ''score'') empty_rating_item
     = Some (Tag ''p'' [''score''] [] [NavigableString ''  ''])
   \<and> get_text_strip (Tag ''p'' [''score''] [] [NavigableString ''  '']) = []
   \<and> extract_rating empty_rating_item = []
   \<and> extract_rating empty_rating_item \<noteq> ''N/A''
   \<and> parse_item any_host empty_rating_item
       = Inr (Some \<lparr>name = ''N/A'', image_url = ''https://ssr1.scrape.center/img/x.jpg'',
                     rating = [], genre = ''N/A''\<rparr>)
   \<and> find_elem ''p'' (Some ''score'') http_prefixed_item = None
   \<and> extract_rating http_prefixed_item = ''N/A''
   \<and> find_elem ''p'' (Some ''score'') nbsp_score_item
       = Some (Tag ''p'' [''score''] [] [NavigableString [char_of (160::nat)]])
   \<and> strip (get_text (Tag ''p'' [''score''] [] [NavigableString [char_of (160::nat)]])) = []
   \<and> extract_rating nbsp_score_item = []
   \<and> extract_rating sentinel_score_item = ''N/A''
   \<and> (find_elem ''p'' (Some ''score'') sentinel_score_item = None
        \<or> (\<exists>e. find_elem ''p'' (Some ''score'') sentinel_score_item = Some e
               \<and> get_text_strip e = ''N/A''))"
proof -
  have a1: "find_elem ''p'' (Some ''score'') empty_rating_item
     = Some (Tag ''p'' [''score''] [] [NavigableString ''  ''])" by code_simp
  have a2: "get_text_strip (Tag ''p'' [''score''] [] [NavigableString ''  '']) = []" by code_simp
  have b: "find_elem ''p'' (Some ''score'') http_prefixed_item = None" by code_simp
  have d: "parse_item any_host empty_rating_item
       = Inr (Some \<lparr>name = ''N/A'', image_url = ''https://ssr1.scrape.center/img/x.jpg'',
                     rating = [], genre = ''N/A''\<rparr>)" by code_simp
  have n1: "find_elem ''p'' (Some ''score'') nbsp_score_item
       = Some (Tag ''p'' [''score''] [] [NavigableString [char_of (160::nat)]])" by code_simp
  have n2: "strip (get_text (Tag ''p'' [''score''] [] [NavigableString [char_of (160::nat)]])) = []"
    by code_simp
  have s: "extract_rating sentinel_score_item = ''N/A''" by code_simp
  note r1 = rating_fallback[of empty_rating_item any_host]
  note r2 = rating_fallback[of http_prefixed_item any_host]
  note r3 = rating_fallback[of nbsp_score_item any_host]
  note r4 = rating_fallback[of sentinel_score_item any_host]
  note A = mp[OF r1[THEN conjunct2, THEN conjunct1, THEN spec] conjI[OF a1 a2]]
  note B = mp[OF r2[THEN conjunct2, THEN conjunct2, THEN conjunct1] b]
  note N = mp[OF r3[THEN conjunct2, THEN conjunct2, THEN conjunct2, THEN conjunct2,
                    THEN conjunct1, THEN spec] conjI[OF n1 n2]]
  note S = mp[OF r4[THEN conjunct2, THEN conjunct2, THEN conjunct2, THEN conjunct2,
                    THEN conjunct2] s]
  show ?thesis
    by (intro conjI a1 a2 A[THEN conjunct1] A[THEN conjunct2] d b B n1 n2 N[THEN conjunct1] s S)
qed

text \<open>
  C5. When rendering a page fails, the page's handler reports it and the page adds no
  record; the records of a run are those of its pages 1 to \<open>n\<close>, each taken on its own, so
  the pages after a failed one still contribute. In particular, with two pages, one that
  fails to render and one whose three items each give a record, \<^verbatim>\<open>scrape_movies\<close> returns
  exactly these three records.
\<close>

theorem page_failure_contained:
  "(\<forall>e. browser p = Inl e \<longrightarrow>
        scrape_page h browser n p st = emit (PageError p e) (emit (ScrapingPage p) st)
        \<and> movies (scrape_page h browser n p st) = movies st)
   \<and> movies (scrape_movies h browser n)
       = concat (map (\<lambda>q. movies (scrape_page h browser n q initial_state)) [1..n])
   \<and> (\<forall>good bad soup e i1 i2 i3 m1 m2 m3.
         {good, bad} = {1, 2} \<and> browser bad = Inl e \<and> browser good = Inr soup
         \<and> find_all ''div'' (Some ''item'') soup = [i1, i2, i3]
         \<and> parse_item h i1 = Inr (Some m1) \<and> parse_item h i2 = Inr (Some m2)
         \<and> parse_item h i3 = Inr (Some m3) \<longrightarrow>
         movies (scrape_movies h browser 2) = [m1, m2, m3]
         \<and> length (movies (scrape_movies h browser 2)) = 3)"
proof (intro conjI allI impI)
  fix e
  assume f: "browser p = Inl e"
  then show "scrape_page h browser n p st = emit (PageError p e) (emit (ScrapingPage p) st)"
    by (simp add: scrape_page_def)
  from f show "movies (scrape_page h browser n p st) = movies st"
    by (rule movies_page_failed)
next
  show "movies (scrape_movies h browser n)
       = concat (map (\<lambda>q. movies (scrape_page h browser n q initial_state)) [1..n])"
    using movies_scrape_movies[of h browser n] by (simp add: py_range_from_one)
next
  fix good bad :: int and soup e i1 i2 i3 m1 m2 m3
  assume a: "{good, bad} = {1, 2} \<and> browser bad = Inl e \<and> browser good = Inr soup
         \<and> find_all ''div'' (Some ''item'') soup = [i1, i2, i3]
         \<and> parse_item h i1 = Inr (Some m1) \<and> parse_item h i2 = Inr (Some m2)
         \<and> parse_item h i3 = Inr (Some m3)"
  have bad: "movies (scrape_page h browser 2 bad initial_state) = []"
    using a movies_page_failed[of browser bad e h 2 initial_state]
    by (simp add: initial_state_def)
  have "movies (process_items h [i1, i2, i3] initial_state) = [m1, m2, m3]"
    using a by (simp add: movies_emit initial_state_def)
  then have good: "movies (scrape_page h browser 2 good initial_state) = [m1, m2, m3]"
    using a movies_page_rendered[of browser good soup h 2 initial_state]
    by (simp add: initial_state_def)
  have all: "movies (scrape_movies h browser 2)
        = movies (scrape_page h browser 2 1 initial_state)
          @ movies (scrape_page h browser 2 2 initial_state)"
    using movies_scrape_movies[of h browser 2] by (simp add: py_range_def upto_one_two)
  from a have "(good = 1 \<and> bad = 2) \<or> (good = 2 \<and> bad = 1)"
    by (auto simp add: doubleton_eq_iff)
  then show res: "movies (scrape_movies h browser 2) = [m1, m2, m3]"
    using all good bad by auto
  then show "length (movies (scrape_movies h browser 2)) = 3" by simp
qed

theorem page_failure_contained_witness:
  "first_page_only 2 = Inl TimeoutException
   \<and> scrape_page any_host first_page_only 2 2 initial_state
       = emit (PageError 2 TimeoutException) (emit (ScrapingPage 2) initial_state)
   \<and> first_page_only 1 = Inr three_items_page
   \<and> find_all ''div'' (Some ''item'') three_items_page
       = [well_formed_item ''A'', well_formed_item ''B'', well_formed_item ''C'']
   \<and> movies (scrape_movies any_host first_page_only 2)
       = [\<lparr>name = ''A'', image_url = ''https://ssr1.scrape.center/img/x.jpg'',
            rating = ''9.5'', genre = ''Drama Crime''\<rparr>,
          \<lparr>name = ''B'', image_url = ''https://ssr1.scrape.center/img/x.jpg'',
            rating = ''9.5'', genre = ''Drama Crime''\<rparr>,
          \<lparr>name = ''C'', image_url = ''https://ssr1.scrape.center/img/x.jpg'',
            rating = ''9.5'', genre = ''Drama Crime''\<rparr>]
   \<and> length (movies (scrape_movies any_host first_page_only 2)) = 3
   \<and> second_page_only 1 = Inl WebDriverException
   \<and> second_page_only 2 = Inr three_items_page
   \<and> length (movies (scrape_movies any_host second_page_only 2)) = 3"
proof -
  have s1: "{1, 2} = {1, 2::int}" by simp
  have s2: "{2, 1} = {1, 2::int}" by auto
  have f2: "first_page_only 2 = Inl TimeoutException" by code_simp
  have f1: "first_page_only 1 = Inr three_items_page" by code_simp
  have g1: "second_page_only 1 = Inl WebDriverException" by code_simp
  have g2: "second_page_only 2 = Inr three_items_page" by code_simp
  have items: "find_all ''div'' (Some ''item'') three_items_page
       = [well_formed_item ''A'', well_formed_item ''B'', well_formed_item ''C'']"
    by code_simp
  have pa: "parse_item any_host (well_formed_item ''A'')
       = Inr (Some \<lparr>name = ''A'', image_url = ''https://ssr1.scrape.center/img/x.jpg'',
            rating = ''9.5'', genre = ''Drama Crime''\<rparr>)" by code_simp
  have pb: "parse_item any_host (well_formed_item ''B'')
       = Inr (Some \<lparr>name = ''B'', image_url = ''https://ssr1.scrape.center/img/x.jpg'',
            rating = ''9.5'', genre = ''Drama Crime''\<rparr>)" by code_simp
  have pc: "parse_item any_host (well_formed_item ''C'')
       = Inr (Some \<lparr>name = ''C'', image_url = ''https://ssr1.scrape.center/img/x.jpg'',
            rating = ''9.5'', genre = ''Drama Crime''\<rparr>)" by code_simp
  note w1 = page_failure_contained[where browser = first_page_only and h = any_host
              and p = 2 and n = 2 and st = initial_state]
  note w2 = page_failure_contained[where browser = second_page_only and h = any_host
              and p = 1 and n = 2 and st = initial_state]
  note A = mp[OF w1[THEN conjunct1, THEN spec] f2]
  note B = w1[THEN conjunct2, THEN conjunct2, rule_format,
              OF conjI[OF s1 conjI[OF f2 conjI[OF f1 conjI[OF items conjI[OF pa conjI[OF pb pc]]]]]]]
  note C = w2[THEN conjunct2, THEN conjunct2, rule_format,
              OF conjI[OF s2 conjI[OF g1 conjI[OF g2 conjI[OF items conjI[OF pa conjI[OF pb pc]]]]]]]
  show ?thesis
    by (intro conjI f2 f1 g1 g2 items A[THEN conjunct1] B[THEN conjunct1] B[THEN conjunct2]
          C[THEN conjunct2])
qed

text \<open>
  C6 as stated fails. The image source \<open>//[x\<close> makes \<^verbatim>\<open>urljoin\<close> raise \<^verbatim>\<open>ValueError\<close>; the
  name, the rating and the genre of that item can all be extracted, but the fault aborts
  the item: nothing of it is emitted.
\<close>

theorem field_fault_counterexample:
  "extract_image_url any_host bad_host_item = Inl ValueError
   \<and> extract_name bad_host_item = ''Farewell''
   \<and> extract_rating bad_host_item = ''9.5''
   \<and> extract_genre bad_host_item = ''Drama''
   \<and> parse_item any_host bad_host_item = Inl ValueError
   \<and> process_items any_host [bad_host_item] initial_state
       = \<lparr>movies = [], printed = [ItemError ValueError]\<rparr>"
  by code_simp

text \<open>
  C6, as the code has it. Within an item the four fields are guarded one by one only
  against a missing element: a missing element gives its field the sentinel, and each field
  of an emitted record is what its own extraction gives, whatever the other fields found.
  A fault raised while extracting a field (only the resolution of the image URL can raise)
  is not guarded per field: it is caught by the handler of the item, which aborts the
  extraction of the whole item and reports it. When the image URL is extracted without a
  fault, the item never faults.
\<close>

theorem field_guards:
  "(\<forall>e. extract_image_url h item = Inl e \<longrightarrow>
        parse_item h item = Inl e \<and> process_items h [item] st = emit (ItemError e) st)
   \<and> (\<forall>url. extract_image_url h item = Inr url \<longrightarrow> (\<exists>r. parse_item h item = Inr r))
   \<and> (\<forall>m. parse_item h item = Inr (Some m) \<longrightarrow>
          extract_image_url h item = Inr (image_url m)
          \<and> name m = extract_name item
          \<and> rating m = extract_rating item
          \<and> genre m = extract_genre item)
   \<and> (find_elem ''img'' None item = None \<longrightarrow> extract_image_url h item = Inr ''N/A'')
   \<and> (find_elem ''a'' (Some ''name'') item = None \<and> find_elem ''a'' None item = None \<longrightarrow>
        extract_name item = ''N/A'')
   \<and> (find_elem ''p'' (Some ''score'') item = None \<longrightarrow> extract_rating item = ''N/A'')
   \<and> (find_all ''button'' (Some ''category'') item = [] \<longrightarrow> extract_genre item = ''N/A'')"
proof (intro conjI allI impI)
  fix e
  assume "extract_image_url h item = Inl e"
  then show "parse_item h item = Inl e" by (simp add: parse_item_def)
  then show "process_items h [item] st = emit (ItemError e) st" by simp
next
  fix url
  assume "extract_image_url h item = Inr url"
  then show "\<exists>r. parse_item h item = Inr r" by (simp add: parse_item_def Let_def)
next
  fix m
  assume m: "parse_item h item = Inr (Some m)"
  then show "extract_image_url h item = Inr (image_url m)"
    by (auto simp add: parse_item_def Let_def split: sum.splits if_splits)
  from m show "name m = extract_name item"
    by (auto simp add: parse_item_def Let_def split: sum.splits if_splits)
  from m show "rating m = extract_rating item"
    by (auto simp add: parse_item_def Let_def split: sum.splits if_splits)
  from m show "genre m = extract_genre item"
    by (auto simp add: parse_item_def Let_def split: sum.splits if_splits)
next
  assume "find_elem ''img'' None item = None"
  then show "extract_image_url h item = Inr ''N/A''"
    by (simp add: extract_image_url_def NA_def)
next
  assume "find_elem ''a'' (Some ''name'') item = None \<and> find_elem ''a'' None item = None"
  then show "extract_name item = ''N/A''"
    by (simp add: extract_name_def name_elem_def NA_def)
next
  assume "find_elem ''p'' (Some ''score'') item = None"
  then show "extract_rating item = ''N/A''" by (simp add: extract_rating_def NA_def)
next
  assume "find_all ''button'' (Some ''category'') item = []"
  then show "extract_genre item = ''N/A''" by (simp add: extract_genre_def NA_def)
qed

theorem field_guards_witness:
  "extract_image_url any_host bad_host_item = Inl ValueError
   \<and> parse_item any_host bad_host_item = Inl ValueError
   \<and> process_items any_host [bad_host_item] initial_state
       = emit (ItemError ValueError) initial_state
   \<and> extract_image_url any_host no_image_item = Inr ''N/A''
   \<and> (\<exists>r. parse_item any_host no_image_item = Inr r)
   \<and> parse_item any_host (well_formed_item ''A'')
       = Inr (Some \<lparr>name = ''A'', image_url = ''https://ssr1.scrape.center/img/x.jpg'',
                     rating = ''9.5'', genre = ''Drama Crime''\<rparr>)
   \<and> rating \<lparr>name = ''A'', image_url = ''https://ssr1.scrape.center/img/x.jpg'',
                     rating = ''9.5'', genre = ''Drama Crime''\<rparr>
       = extract_rating (well_formed_item ''A'')
   \<and> find_elem ''img'' None no_image_item = None
   \<and> find_elem ''a'' (Some ''name'') http_prefixed_item = None
   \<and> find_elem ''a'' None http_prefixed_item = None
   \<and> extract_name http_prefixed_item = ''N/A''
   \<and> find_elem ''p'' (Some ''score'') http_prefixed_item = None
   \<and> extract_rating http_prefixed_item = ''N/A''
   \<and> find_all ''button'' (Some ''category'') http_prefixed_item = []
   \<and> extract_genre http_prefixed_item = ''N/A''
   \<and> parse_item any_host http_prefixed_item
       = Inr (Some \<lparr>name = ''N/A'', image_url = ''httpx/p.jpg'', rating = ''N/A'',
                     genre = ''N/A''\<rparr>)"
proof -
  have a: "extract_image_url any_host bad_host_item = Inl ValueError" by code_simp
  have d: "parse_item any_host (well_formed_item ''A'')
       = Inr (Some \<lparr>name = ''A'', image_url = ''https://ssr1.scrape.center/img/x.jpg'',
                     rating = ''9.5'', genre = ''Drama Crime''\<rparr>)" by code_simp
  have i: "find_elem ''img'' None no_image_item = None" by code_simp
  have n1: "find_elem ''a'' (Some ''name'') http_prefixed_item = None" by code_simp
  have n2: "find_elem ''a'' None http_prefixed_item = None" by code_simp
  have r: "find_elem ''p'' (Some ''score'') http_prefixed_item = None" by code_simp
  have c: "find_all ''button'' (Some ''category'') http_prefixed_item = []" by code_simp
  have p: "parse_item any_host http_prefixed_item
       = Inr (Some \<lparr>name = ''N/A'', image_url = ''httpx/p.jpg'', rating = ''N/A'',
                     genre = ''N/A''\<rparr>)" by code_simp
  note g1 = field_guards[of any_host bad_host_item initial_state]
  note g2 = field_guards[of any_host no_image_item initial_state]
  note g3 = field_guards[of any_host "well_formed_item ''A''" initial_state]
  note g4 = field_guards[of any_host http_prefixed_item initial_state]
  note rest2 = g2[THEN conjunct2, THEN conjunct2, THEN conjunct2]
  note rest4 = g4[THEN conjunct2, THEN conjunct2, THEN conjunct2]
  note A = mp[OF g1[THEN conjunct1, THEN spec] a]
  note I = mp[OF rest2[THEN conjunct1] i]
  note B = mp[OF g2[THEN conjunct2, THEN conjunct1, THEN spec] I]
  note D = mp[OF g3[THEN conjunct2, THEN conjunct2, THEN conjunct1, THEN spec] d]
  note N = mp[OF rest4[THEN conjunct2, THEN conjunct1] conjI[OF n1 n2]]
  note R = mp[OF rest4[THEN conjunct2, THEN conjunct2, THEN conjunct1] r]
  note C = mp[OF rest4[THEN conjunct2, THEN conjunct2, THEN conjunct2] c]
  show ?thesis
    by (intro conjI a A[THEN conjunct1] A[THEN conjunct2] I B d
          D[THEN conjunct2, THEN conjunct2, THEN conjunct1] i n1 n2 N r R c C p)
qed

text \<open>
  C7. When the extraction of an item raises, the handler of the item reports it, the item
  adds no record, and the loop goes on with the items after it: the records of the page are
  those of the page without that item.
\<close>

theorem item_failure_contained:
  assumes "parse_item h item = Inl e"
  shows "process_items h (before @ item # after) st
           = process_items h after (emit (ItemError e) (process_items h before st))
       \<and> movies (process_items h (before @ item # after) st)
           = movies (process_items h (before @ after) st)"
proof
  show step: "process_items h (before @ item # after) st
           = process_items h after (emit (ItemError e) (process_items h before st))"
    using assms by (simp add: process_items_append)
  have "movies (process_items h after (emit (ItemError e) (process_items h before st)))
        = movies (process_items h before st) @ movies (process_items h after initial_state)"
    using movies_process_items[of h after "emit (ItemError e) (process_items h before st)"]
    by (simp add: movies_emit)
  also have "\<dots> = movies (process_items h after (process_items h before st))"
    using movies_process_items[of h after "process_items h before st"] by simp
  finally have "movies (process_items h after (emit (ItemError e) (process_items h before st)))
        = movies (process_items h after (process_items h before st))" .
  then show "movies (process_items h (before @ item # after) st)
           = movies (process_items h (before @ after) st)"
    unfolding step by (simp add: process_items_append)
qed

theorem item_failure_contained_witness:
  "parse_item any_host bad_host_item = Inl ValueError
   \<and> movies (process_items any_host
        ([well_formed_item ''A''] @ bad_host_item # [well_formed_item ''C'']) initial_state)
      = movies (process_items any_host ([well_formed_item ''A''] @ [well_formed_item ''C''])
          initial_state)
   \<and> movies (process_items any_host ([well_formed_item ''A''] @ [well_formed_item ''C''])
          initial_state)
      = [\<lparr>name = ''A'', image_url = ''https://ssr1.scrape.center/img/x.jpg'',
           rating = ''9.5'', genre = ''Drama Crime''\<rparr>,
         \<lparr>name = ''C'', image_url = ''https://ssr1.scrape.center/img/x.jpg'',
           rating = ''9.5'', genre = ''Drama Crime''\<rparr>]"
proof -
  have a: "parse_item any_host bad_host_item = Inl ValueError" by code_simp
  have c: "movies (process_items any_host ([well_formed_item ''A''] @ [well_formed_item ''C''])
          initial_state)
      = [\<lparr>name = ''A'', image_url = ''https://ssr1.scrape.center/img/x.jpg'',
           rating = ''9.5'', genre = ''Drama Crime''\<rparr>,
         \<lparr>name = ''C'', image_url = ''https://ssr1.scrape.center/img/x.jpg'',
           rating = ''9.5'', genre = ''Drama Crime''\<rparr>]" by code_simp
  note w = item_failure_contained[OF a, of "[well_formed_item ''A'']" "[well_formed_item ''C'']"
             initial_state]
  show ?thesis by (intro conjI a c w[THEN conjunct2])
qed

text \<open>
  C9. \<^verbatim>\<open>scrape_movies\<close> announces and processes the pages 1 to \<open>num_pages\<close> in this order
  and returns the records accumulated over them; when \<open>num_pages\<close> is 0 or less it does
  nothing and returns the empty sequence.
\<close>

theorem page_iteration:
  "(num_pages \<le> 0 \<longrightarrow> scrape_movies h b num_pages = \<lparr>movies = [], printed = []\<rparr>)
   \<and> pages_announced (printed (scrape_movies h b num_pages)) = [1..num_pages]
   \<and> movies (scrape_movies h b num_pages)
       = concat (map (\<lambda>p. movies (scrape_page h b num_pages p initial_state)) [1..num_pages])"
proof (intro conjI impI)
  assume "num_pages \<le> 0"
  then show "scrape_movies h b num_pages = \<lparr>movies = [], printed = []\<rparr>"
    by (simp add: scrape_movies_def py_range_def initial_state_def)
next
  show "pages_announced (printed (scrape_movies h b num_pages)) = [1..num_pages]"
    by (simp add: scrape_movies_def pages_announced_foldl py_range_from_one initial_state_def)
next
  show "movies (scrape_movies h b num_pages)
       = concat (map (\<lambda>p. movies (scrape_page h b num_pages p initial_state)) [1..num_pages])"
    using movies_scrape_movies[of h b num_pages] by (simp add: py_range_from_one)
qed

theorem page_iteration_witness:
  "(-3::int) \<le> 0
   \<and> scrape_movies any_host first_page_only (-3) = \<lparr>movies = [], printed = []\<rparr>
   \<and> (0::int) \<le> 0
   \<and> scrape_movies any_host first_page_only 0 = \<lparr>movies = [], printed = []\<rparr>
   \<and> pages_announced (printed (scrape_movies any_host first_page_only 2)) = [1, 2]"
proof -
  have a: "(-3::int) \<le> 0" by simp
  have b: "(0::int) \<le> 0" by simp
  note A = mp[OF page_iteration[of "-3" any_host first_page_only, THEN conjunct1] a]
  note B = mp[OF page_iteration[of 0 any_host first_page_only, THEN conjunct1] b]
  have C: "pages_announced (printed (scrape_movies any_host first_page_only 2)) = [1, 2]"
    using page_iteration[of 2 any_host first_page_only, THEN conjunct2, THEN conjunct1]
    by (simp only: upto_one_two)
  show ?thesis by (intro conjI a b A B C)
qed

text \<open>
  C8 as stated fails on the line count. A title with a line feed in it reaches the record
  as it is; the writer quotes the field and keeps the line feed, so the file of this one
  record has three lines, not two.
\<close>

theorem embedded_newline_counterexample:
  "parse_item any_host two_line_item = Inr (Some two_line_title)
   \<and> map_option (length \<circ> file_lines)
        (files (save_to_csv always_writable nowhere [two_line_title] ''movie.csv'') ''movie.csv'')
       = Some 3
   \<and> length [two_line_title] + 1 = 2"
  by code_simp

text \<open>
  C8, as the code has it. Given a non-empty record sequence and a destination that can be
  opened, \<^verbatim>\<open>save_to_csv\<close> writes a file whose first line is exactly
  \<open>name,image_url,rating,genre\<close> and which holds the header row followed by one row for each
  record, every row ended by CR LF; when no field of any record contains CR or LF, the
  lines of the file are the header and one line for each record, \<open>len(records)+1\<close> lines in
  all. Given an empty record sequence no file is produced: the file system is unchanged and
  the fact is reported.
\<close>

theorem csv_file_shape:
  "(movie_list \<noteq> [] \<and> writable filename \<longrightarrow>
      (\<exists>content. files (save_to_csv writable fs movie_list filename) filename = Some content
         \<and> hd (file_lines content) = ''name,image_url,rating,genre''
         \<and> ((\<forall>m \<in> set movie_list. \<forall>f \<in> set (row_of m). unbroken f) \<longrightarrow>
               file_lines content = ''name,image_url,rating,genre'' # map row_text movie_list
               \<and> length (file_lines content) = length movie_list + 1)
         \<and> content = concat (map (\<lambda>row. row @ [CR, LF])
                               (''name,image_url,rating,genre'' # map row_text movie_list))))
   \<and> save_to_csv writable fs [] filename = \<lparr>files = fs, messages = [NoMoviesToSave]\<rparr>"
proof (intro conjI impI)
  assume a: "movie_list \<noteq> [] \<and> writable filename"
  let ?content = "writerow fieldnames @ concat (map (\<lambda>m. writerow (row_of m)) movie_list)"
  have f: "files (save_to_csv writable fs movie_list filename) filename = Some ?content"
    using a by (simp add: save_to_csv_def)
  have h: "hd (file_lines ?content) = ''name,image_url,rating,genre''"
    by (rule file_first_line)
  have l: "(\<forall>m \<in> set movie_list. \<forall>f \<in> set (row_of m). unbroken f) \<longrightarrow>
               file_lines ?content = ''name,image_url,rating,genre'' # map row_text movie_list
               \<and> length (file_lines ?content) = length movie_list + 1"
  proof
    assume u: "\<forall>m \<in> set movie_list. \<forall>f \<in> set (row_of m). unbroken f"
    have "\<forall>b \<in> set (''name,image_url,rating,genre'' # map row_text movie_list). unbroken b"
      using u unbroken_header unbroken_row_text by auto
    from file_lines_rows[OF this]
    have "file_lines ?content = ''name,image_url,rating,genre'' # map row_text movie_list"
      by (simp only: file_content)
    then show "file_lines ?content = ''name,image_url,rating,genre'' # map row_text movie_list
               \<and> length (file_lines ?content) = length movie_list + 1"
      by simp
  qed
  have r: "?content = concat (map (\<lambda>row. row @ [CR, LF])
                               (''name,image_url,rating,genre'' # map row_text movie_list))"
    by (rule file_content)
  from f h l r
  show "\<exists>content. files (save_to_csv writable fs movie_list filename) filename = Some content
         \<and> hd (file_lines content) = ''name,image_url,rating,genre''
         \<and> ((\<forall>m \<in> set movie_list. \<forall>f \<in> set (row_of m). unbroken f) \<longrightarrow>
               file_lines content = ''name,image_url,rating,genre'' # map row_text movie_list
               \<and> length (file_lines content) = length movie_list + 1)
         \<and> content = concat (map (\<lambda>row. row @ [CR, LF])
                               (''name,image_url,rating,genre'' # map row_text movie_list))"
    by (intro exI[of _ ?content] conjI)
next
  show "save_to_csv writable fs [] filename = \<lparr>files = fs, messages = [NoMoviesToSave]\<rparr>"
    by (simp add: save_to_csv_def)
qed

theorem csv_file_shape_witness:
  "always_writable ''movie.csv''
   \<and> unbroken ''A'' \<and> unbroken ''https://ssr1.scrape.center/img/x.jpg''
   \<and> unbroken ''9.5'' \<and> unbroken ''Drama Crime''
   \<and> (\<exists>content.
         files (save_to_csv always_writable nowhere
                  [\<lparr>name = ''A'', image_url = ''https://ssr1.scrape.center/img/x.jpg'',
                     rating = ''9.5'', genre = ''Drama Crime''\<rparr>] ''movie.csv'') ''movie.csv''
           = Some content
         \<and> hd (file_lines content) = ''name,image_url,rating,genre''
         \<and> file_lines content
             = [''name,image_url,rating,genre'',
                ''A,https://ssr1.scrape.center/img/x.jpg,9.5,Drama Crime'']
         \<and> length (file_lines content) = 2
         \<and> content = ''name,image_url,rating,genre'' @ [CR, LF]
               @ ''A,https://ssr1.scrape.center/img/x.jpg,9.5,Drama Crime'' @ [CR, LF])"
proof -
  let ?m = "\<lparr>name = ''A'', image_url = ''https://ssr1.scrape.center/img/x.jpg'',
              rating = ''9.5'', genre = ''Drama Crime''\<rparr>"
  have w: "always_writable ''movie.csv''" by code_simp
  have ne: "[?m] \<noteq> []" by simp
  have u1: "unbroken ''A''" by code_simp
  have u2: "unbroken ''https://ssr1.scrape.center/img/x.jpg''" by code_simp
  have u3: "unbroken ''9.5''" by code_simp
  have u4: "unbroken ''Drama Crime''" by code_simp
  have u: "\<forall>m \<in> set [?m]. \<forall>f \<in> set (row_of m). unbroken f"
    using u1 u2 u3 u4 by (simp add: row_of_def)
  have rows: "map row_text [?m] = [''A,https://ssr1.scrape.center/img/x.jpg,9.5,Drama Crime'']"
    by code_simp
  from mp[OF csv_file_shape[where movie_list = "[?m]" and writable = always_writable
               and filename = "''movie.csv''" and fs = nowhere, THEN conjunct1] conjI[OF ne w]]
  obtain content where
    c1: "files (save_to_csv always_writable nowhere [?m] ''movie.csv'') ''movie.csv'' = Some content"
    and c2: "hd (file_lines content) = ''name,image_url,rating,genre''"
    and c3: "(\<forall>m \<in> set [?m]. \<forall>f \<in> set (row_of m). unbroken f) \<longrightarrow>
               file_lines content = ''name,image_url,rating,genre'' # map row_text [?m]
               \<and> length (file_lines content) = length [?m] + 1"
    and c6: "content = concat (map (\<lambda>row. row @ [CR, LF])
                               (''name,image_url,rating,genre'' # map row_text [?m]))"
    by (elim exE conjE)
  from mp[OF c3 u] rows
  have c4: "file_lines content
             = [''name,image_url,rating,genre'',
                ''A,https://ssr1.scrape.center/img/x.jpg,9.5,Drama Crime'']"
    and c5: "length (file_lines content) = 2"
    by simp_all
  have c7: "content = ''name,image_url,rating,genre'' @ [CR, LF]
               @ ''A,https://ssr1.scrape.center/img/x.jpg,9.5,Drama Crime'' @ [CR, LF]"
    unfolding c6 rows by simp
  from c1 c2 c4 c5 c7
  have "\<exists>content.
         files (save_to_csv always_writable nowhere [?m] ''movie.csv'') ''movie.csv'' = Some content
         \<and> hd (file_lines content) = ''name,image_url,rating,genre''
         \<and> file_lines content
             = [''name,image_url,rating,genre'',
                ''A,https://ssr1.scrape.center/img/x.jpg,9.5,Drama Crime'']
         \<and> length (file_lines content) = 2
         \<and> content = ''name,image_url,rating,genre'' @ [CR, LF]
               @ ''A,https://ssr1.scrape.center/img/x.jpg,9.5,Drama Crime'' @ [CR, LF]"
    by (intro exI[of _ content] conjI)
  then show ?thesis by (intro conjI w u1 u2 u3 u4)
qed

end
